theory Spec2Isabelle
  imports
    Complex_Main
    "HOL-Library.Product_Lexorder"
    "HOL-Library.List_Lexorder"
    "HOL-Library.Char_ord"
begin

section \<open>Scoring constants (scoring/constants.py)\<close>

text \<open>
  The module is a table of configuration values, column schemas and a few dataclasses.
  Python strings are \<open>string\<close>, Python ints are \<open>int\<close>, the decimal float literals of the
  churn thresholds are the rationals their literals denote, a list of tuples is a list of
  pairs, a set literal is a set, a dict comprehension is a map, a dataclass is a record and
  an \<open>Enum\<close> is a datatype with its value function.
\<close>

named_theorems keys \<open>the string constants of the module\<close>

subsection \<open>Explanation-tag thresholds and churn thresholds\<close>

definition minRatingsToGetTag :: int where
  "minRatingsToGetTag = 2"

definition minTagsNeededForStatus :: int where
  "minTagsNeededForStatus = 2"

definition prescoringAllUnlockedNotesMaxCrhChurn :: rat where
  "prescoringAllUnlockedNotesMaxCrhChurn = 4 / 100"

definition finalUnlockedNotesWithNoNewRatingsMaxCrhChurn :: rat where
  "finalUnlockedNotesWithNoNewRatingsMaxCrhChurn = 3 / 100"

definition finalNotesWithNewRatingsMaxCrhChurn :: rat where
  "finalNotesWithNewRatingsMaxCrhChurn = 40 / 100"

definition finalNotesThatJustFlippedStatusMaxCrhChurn :: rat where
  "finalNotesThatJustFlippedStatusMaxCrhChurn = 100000000"

definition finalNotesThatFlippedRecentlyMaxCrhChurn :: rat where
  "finalNotesThatFlippedRecentlyMaxCrhChurn = 100000000"

subsection \<open>Scoring groups\<close>

definition coreGroups :: "int set" where
  "coreGroups = {1, 2, 3, 6, 8, 9, 10, 11, 13, 14, 19, 21, 25}"

definition expansionGroups :: "int set" where
  "expansionGroups =
     {0, 15, 17, 24, 29, 30} \<union> {4, 5, 7, 12, 26} \<union> {27} \<union> {16, 20, 22, 23, 28}"

definition expansionPlusGroups :: "int set" where
  "expansionPlusGroups = {18}"

subsection \<open>Note status labels\<close>

definition currentlyRatedHelpful :: string where
  [keys]: "currentlyRatedHelpful = ''CURRENTLY_RATED_HELPFUL''"

definition currentlyRatedNotHelpful :: string where
  [keys]: "currentlyRatedNotHelpful = ''CURRENTLY_RATED_NOT_HELPFUL''"

definition needsMoreRatings :: string where
  [keys]: "needsMoreRatings = ''NEEDS_MORE_RATINGS''"

subsection \<open>Tag vocabularies with their tie-break order\<close>

definition helpfulOtherTagKey :: string where
  [keys]: "helpfulOtherTagKey = ''helpfulOther''"

definition helpfulTagsAndTieBreakOrder :: "(int \<times> string) list" where
  "helpfulTagsAndTieBreakOrder =
     [(0, helpfulOtherTagKey),
      (8, ''helpfulInformative''),
      (7, ''helpfulClear''),
      (3, ''helpfulEmpathetic''),
      (4, ''helpfulGoodSources''),
      (2, ''helpfulUniqueContext''),
      (5, ''helpfulAddressesClaim''),
      (6, ''helpfulImportantContext''),
      (1, ''helpfulUnbiasedLanguage'')]"

text \<open>\<open>[tag for (tiebreakOrder, tag) in xs]\<close>\<close>

definition helpfulTagsTSVOrder :: "string list" where
  "helpfulTagsTSVOrder = map snd helpfulTagsAndTieBreakOrder"

text \<open>
  \<open>sorted(xs)\<close> on a list of \<open>(int, str)\<close> tuples compares the integers first and the
  strings (by code point, a prefix being smaller) second: the lexicographic order of
  pairs over the lexicographic order of character lists.
\<close>

definition helpfulTagsTiebreakOrder :: "string list" where
  "helpfulTagsTiebreakOrder = map snd (sort helpfulTagsAndTieBreakOrder)"

definition notHelpfulIncorrectTagKey :: string where
  [keys]: "notHelpfulIncorrectTagKey = ''notHelpfulIncorrect''"

definition notHelpfulOtherTagKey :: string where
  [keys]: "notHelpfulOtherTagKey = ''notHelpfulOther''"

definition notHelpfulSpamHarassmentOrAbuseTagKey :: string where
  [keys]: "notHelpfulSpamHarassmentOrAbuseTagKey = ''notHelpfulSpamHarassmentOrAbuse''"

definition notHelpfulArgumentativeOrBiasedTagKey :: string where
  [keys]: "notHelpfulArgumentativeOrBiasedTagKey = ''notHelpfulArgumentativeOrBiased''"

definition notHelpfulHardToUnderstandKey :: string where
  [keys]: "notHelpfulHardToUnderstandKey = ''notHelpfulHardToUnderstand''"

definition notHelpfulNoteNotNeededKey :: string where
  [keys]: "notHelpfulNoteNotNeededKey = ''notHelpfulNoteNotNeeded''"

definition notHelpfulSourcesMissingOrUnreliableTagKey :: string where
  [keys]: "notHelpfulSourcesMissingOrUnreliableTagKey = ''notHelpfulSourcesMissingOrUnreliable''"

definition notHelpfulIrrelevantSourcesTagKey :: string where
  [keys]: "notHelpfulIrrelevantSourcesTagKey = ''notHelpfulIrrelevantSources''"

definition notHelpfulOpinionSpeculationOrBiasTagKey :: string where
  [keys]: "notHelpfulOpinionSpeculationOrBiasTagKey = ''notHelpfulOpinionSpeculationOrBias''"

definition notHelpfulMissingKeyPointsTagKey :: string where
  [keys]: "notHelpfulMissingKeyPointsTagKey = ''notHelpfulMissingKeyPoints''"

definition notHelpfulOutdatedTagKey :: string where
  [keys]: "notHelpfulOutdatedTagKey = ''notHelpfulOutdated''"

definition notHelpfulOffTopicTagKey :: string where
  [keys]: "notHelpfulOffTopicTagKey = ''notHelpfulOffTopic''"

definition notHelpfulOpinionSpeculationTagKey :: string where
  [keys]: "notHelpfulOpinionSpeculationTagKey = ''notHelpfulOpinionSpeculation''"

text \<open>The list is in TSV order, with indices for the tie-break order.\<close>

definition notHelpfulTagsAndTieBreakOrder :: "(int \<times> string) list" where
  "notHelpfulTagsAndTieBreakOrder =
     [(0, notHelpfulOtherTagKey),
      (8, notHelpfulIncorrectTagKey),
      (2, notHelpfulSourcesMissingOrUnreliableTagKey),
      (4, notHelpfulOpinionSpeculationOrBiasTagKey),
      (5, notHelpfulMissingKeyPointsTagKey),
      (12, notHelpfulOutdatedTagKey),
      (10, notHelpfulHardToUnderstandKey),
      (7, notHelpfulArgumentativeOrBiasedTagKey),
      (9, notHelpfulOffTopicTagKey),
      (11, notHelpfulSpamHarassmentOrAbuseTagKey),
      (1, notHelpfulIrrelevantSourcesTagKey),
      (3, notHelpfulOpinionSpeculationTagKey),
      (6, notHelpfulNoteNotNeededKey)]"

definition notHelpfulTagsTSVOrder :: "string list" where
  "notHelpfulTagsTSVOrder = map snd notHelpfulTagsAndTieBreakOrder"

definition notHelpfulTagsTiebreakOrder :: "string list" where
  "notHelpfulTagsTiebreakOrder = map snd (sort notHelpfulTagsAndTieBreakOrder)"

text \<open>
  \<open>{tag: priority for (priority, tag) in xs}\<close>: a later entry for the same tag
  overwrites an earlier one, so the lookup reads the list from its end.
\<close>

definition notHelpfulTagsTiebreakMapping :: "string \<rightharpoonup> int" where
  "notHelpfulTagsTiebreakMapping =
     map_of (rev (map (\<lambda>(priority, tag). (tag, priority)) notHelpfulTagsAndTieBreakOrder))"

subsection \<open>The note status history schema\<close>

text \<open>The column types that the status-history schema uses.\<close>

datatype dtype = np_int64 | np_double | object | category

definition noteIdKey :: string where
  [keys]: "noteIdKey = ''noteId''"

definition noteAuthorParticipantIdKey :: string where
  [keys]: "noteAuthorParticipantIdKey = ''noteAuthorParticipantId''"

definition createdAtMillisKey :: string where
  [keys]: "createdAtMillisKey = ''createdAtMillis''"

definition timestampMillisOfNoteFirstNonNMRLabelKey :: string where
  [keys]: "timestampMillisOfNoteFirstNonNMRLabelKey = ''timestampMillisOfFirstNonNMRStatus''"

definition firstNonNMRLabelKey :: string where
  [keys]: "firstNonNMRLabelKey = ''firstNonNMRStatus''"

definition timestampMillisOfNoteCurrentLabelKey :: string where
  [keys]: "timestampMillisOfNoteCurrentLabelKey = ''timestampMillisOfCurrentStatus''"

definition currentLabelKey :: string where
  [keys]: "currentLabelKey = ''currentStatus''"

definition timestampMillisOfNoteMostRecentNonNMRLabelKey :: string where
  [keys]: "timestampMillisOfNoteMostRecentNonNMRLabelKey = ''timestampMillisOfLatestNonNMRStatus''"

definition mostRecentNonNMRLabelKey :: string where
  [keys]: "mostRecentNonNMRLabelKey = ''mostRecentNonNMRStatus''"

definition timestampMillisOfStatusLockKey :: string where
  [keys]: "timestampMillisOfStatusLockKey = ''timestampMillisOfStatusLock''"

definition lockedStatusKey :: string where
  [keys]: "lockedStatusKey = ''lockedStatus''"

definition timestampMillisOfRetroLockKey :: string where
  [keys]: "timestampMillisOfRetroLockKey = ''timestampMillisOfRetroLock''"

definition currentCoreStatusKey :: string where
  [keys]: "currentCoreStatusKey = ''currentCoreStatus''"

definition currentExpansionStatusKey :: string where
  [keys]: "currentExpansionStatusKey = ''currentExpansionStatus''"

definition currentGroupStatusKey :: string where
  [keys]: "currentGroupStatusKey = ''currentGroupStatus''"

definition currentDecidedByKey :: string where
  [keys]: "currentDecidedByKey = ''currentDecidedBy''"

definition currentModelingGroupKey :: string where
  [keys]: "currentModelingGroupKey = ''currentModelingGroup''"

definition timestampMillisOfMostRecentStatusChangeKey :: string where
  [keys]: "timestampMillisOfMostRecentStatusChangeKey = ''timestampMillisOfMostRecentStatusChange''"

definition noteStatusHistoryTSVColumnsAndTypes :: "(string \<times> dtype) list" where
  "noteStatusHistoryTSVColumnsAndTypes =
     [(noteIdKey, np_int64),
      (noteAuthorParticipantIdKey, object),
      (createdAtMillisKey, np_int64),
      (timestampMillisOfNoteFirstNonNMRLabelKey, np_double),
      (firstNonNMRLabelKey, category),
      (timestampMillisOfNoteCurrentLabelKey, np_double),
      (currentLabelKey, category),
      (timestampMillisOfNoteMostRecentNonNMRLabelKey, np_double),
      (mostRecentNonNMRLabelKey, category),
      (timestampMillisOfStatusLockKey, np_double),
      (lockedStatusKey, category),
      (timestampMillisOfRetroLockKey, np_double),
      (currentCoreStatusKey, category),
      (currentExpansionStatusKey, category),
      (currentGroupStatusKey, category),
      (currentDecidedByKey, category),
      (currentModelingGroupKey, np_double),
      (timestampMillisOfMostRecentStatusChangeKey, np_double)]"

definition noteStatusHistoryTSVColumns :: "string list" where
  "noteStatusHistoryTSVColumns = map fst noteStatusHistoryTSVColumnsAndTypes"

definition noteStatusHistoryTSVTypes :: "dtype list" where
  "noteStatusHistoryTSVTypes = map snd noteStatusHistoryTSVColumnsAndTypes"

definition noteStatusHistoryTSVTypeMapping :: "string \<rightharpoonup> dtype" where
  "noteStatusHistoryTSVTypeMapping = map_of (rev noteStatusHistoryTSVColumnsAndTypes)"

text \<open>
  What a cell of a column can hold. An \<open>np.int64\<close> column holds integers and has no
  missing value; an \<open>np.double\<close> column holds numbers and NaN (the source's comment on
  the timestamp columns: double because nullable); \<open>object\<close> and \<open>category\<close> columns
  hold strings or a missing value.
\<close>

datatype cell = NaN | IntCell int | DoubleCell rat | StrCell string

fun holds :: "dtype \<Rightarrow> cell \<Rightarrow> bool" where
  "holds np_int64 (IntCell i) = True"
| "holds np_int64 c = False"
| "holds np_double NaN = True"
| "holds np_double (DoubleCell x) = True"
| "holds np_double c = False"
| "holds object NaN = True"
| "holds object (StrCell s) = True"
| "holds object c = False"
| "holds category NaN = True"
| "holds category (StrCell s) = True"
| "holds category c = False"

subsection \<open>Dataclasses of the cross-phase hand-off\<close>

record ReputationGlobalIntercept =
  firstRound :: real
  secondRound :: real
  finalRound :: real

record PrescoringMetaScorerOutput =
  globalIntercept :: "real option"
  lowDiligenceGlobalIntercept :: "ReputationGlobalIntercept option"
  tagFilteringThresholds :: "(string \<rightharpoonup> real) option"

record PrescoringMetaOutput =
  metaScorerOutput :: "string \<rightharpoonup> PrescoringMetaScorerOutput"

record SharedMemoryDataframeInfo =
  sharedMemoryName :: string
  dataSize :: int

record ScoringArgsSharedMemory =
  noteTopics :: SharedMemoryDataframeInfo
  ratings :: SharedMemoryDataframeInfo
  noteStatusHistory :: SharedMemoryDataframeInfo
  userEnrollment :: SharedMemoryDataframeInfo

text \<open>\<open>class PrescoringArgsSharedMemory(ScoringArgsSharedMemory): pass\<close>\<close>

type_synonym PrescoringArgsSharedMemory = ScoringArgsSharedMemory

record FinalScoringArgsSharedMemory = ScoringArgsSharedMemory +
  prescoringNoteModelOutput :: SharedMemoryDataframeInfo
  prescoringRaterModelOutput :: SharedMemoryDataframeInfo

text \<open>
  The arguments themselves. \<open>'df\<close> is the data frame type; a field assigned \<open>None\<close>
  holds \<open>None\<close>, so the fields are optional data frames.
\<close>

record 'df ScoringArgs =
  noteTopics :: "'df option"
  ratings :: "'df option"
  noteStatusHistory :: "'df option"
  userEnrollment :: "'df option"

text \<open>
  The method assigns to four attributes of \<open>self\<close>; a subclass that does not override it
  keeps its own attributes, hence the record scheme.
\<close>

definition ScoringArgs_remove_large_args_for_multiprocessing ::
  "('df, 'z) ScoringArgs_scheme \<Rightarrow> ('df, 'z) ScoringArgs_scheme" where
  "ScoringArgs_remove_large_args_for_multiprocessing self =
     self\<lparr>noteTopics := None, ratings := None, noteStatusHistory := None,
          userEnrollment := None\<rparr>"

text \<open>\<open>class PrescoringArgs(ScoringArgs): pass\<close>\<close>

type_synonym 'df PrescoringArgs = "'df ScoringArgs"

record 'df FinalScoringArgs = "'df ScoringArgs" +
  prescoringNoteModelOutput :: "'df option"
  prescoringRaterModelOutput :: "'df option"
  prescoringMetaOutput :: PrescoringMetaOutput

definition FinalScoringArgs_remove_large_args_for_multiprocessing ::
  "'df FinalScoringArgs \<Rightarrow> 'df FinalScoringArgs" where
  "FinalScoringArgs_remove_large_args_for_multiprocessing self =
     self\<lparr>ratings := None, noteStatusHistory := None, userEnrollment := None,
          prescoringNoteModelOutput := None, prescoringRaterModelOutput := None\<rparr>"

subsection \<open>Rescoring rules\<close>

datatype RescoringRuleID =
    ALL_NOTES
  | NOTES_WITH_NEW_RATINGS
  | NOTES_FLIPPED_PREVIOUS_RUN
  | NEW_NOTES_NOT_RESCORED_RECENTLY_ENOUGH
  | RECENTLY_FLIPPED_NOTES_NOT_RESCORED_RECENTLY_ENOUGH

text \<open>The \<open>.value\<close> of a member.\<close>

fun RescoringRuleID_value :: "RescoringRuleID \<Rightarrow> int" where
  "RescoringRuleID_value ALL_NOTES = 1"
| "RescoringRuleID_value NOTES_WITH_NEW_RATINGS = 2"
| "RescoringRuleID_value NOTES_FLIPPED_PREVIOUS_RUN = 3"
| "RescoringRuleID_value NEW_NOTES_NOT_RESCORED_RECENTLY_ENOUGH = 4"
| "RescoringRuleID_value RECENTLY_FLIPPED_NOTES_NOT_RESCORED_RECENTLY_ENOUGH = 5"

text \<open>The members in declaration order, as iterating over the class yields them.\<close>

definition RescoringRuleID_members :: "RescoringRuleID list" where
  "RescoringRuleID_members =
     [ALL_NOTES, NOTES_WITH_NEW_RATINGS, NOTES_FLIPPED_PREVIOUS_RUN,
      NEW_NOTES_NOT_RESCORED_RECENTLY_ENOUGH,
      RECENTLY_FLIPPED_NOTES_NOT_RESCORED_RECENTLY_ENOUGH]"

text \<open>\<open>RescoringRuleID(v)\<close>: the member with that value; a ValueError is \<open>None\<close>.\<close>

definition RescoringRuleID_of_value :: "int \<Rightarrow> RescoringRuleID option" where
  "RescoringRuleID_of_value v = find (\<lambda>r. RescoringRuleID_value r = v) RescoringRuleID_members"

record NoteSubset =
  noteSet :: "int set option"
  maxCrhChurnRate :: rat
  description :: RescoringRuleID

section \<open>What the specification names\<close>

text \<open>
  The fields that the specification lists for the persisted status history record, by
  their column keys: creation time; first non-NMR label and its timestamp; current label
  and its timestamp; most recent non-NMR label and its timestamp; lock timestamp and
  locked label; retro-lock timestamp; the core, expansion and group labels; the deciding
  tier; the modeling group; the timestamp of the most recent status change.
\<close>

definition statusHistoryRecordFields_spec :: "string list" where
  "statusHistoryRecordFields_spec =
     [createdAtMillisKey,
      firstNonNMRLabelKey, timestampMillisOfNoteFirstNonNMRLabelKey,
      currentLabelKey, timestampMillisOfNoteCurrentLabelKey,
      mostRecentNonNMRLabelKey, timestampMillisOfNoteMostRecentNonNMRLabelKey,
      timestampMillisOfStatusLockKey, lockedStatusKey,
      timestampMillisOfRetroLockKey,
      currentCoreStatusKey, currentExpansionStatusKey, currentGroupStatusKey,
      currentDecidedByKey,
      currentModelingGroupKey,
      timestampMillisOfMostRecentStatusChangeKey]"

text \<open>
  The optional timestamps of the record: first non-NMR, current, most recent non-NMR,
  status lock, retro-lock, most recent status change.
\<close>

definition optionalTimestampKeys :: "string list" where
  "optionalTimestampKeys =
     [timestampMillisOfNoteFirstNonNMRLabelKey, timestampMillisOfNoteCurrentLabelKey,
      timestampMillisOfNoteMostRecentNonNMRLabelKey, timestampMillisOfStatusLockKey,
      timestampMillisOfRetroLockKey, timestampMillisOfMostRecentStatusChangeKey]"

subsection \<open>The explanation tag selector\<close>

text \<open>
  Modelled from the spec: the explanation tag selector, whose code is not in
  scoring/constants.py (the module holds its thresholds and vocabularies only).
  The specification: a tag qualifies only if its vote count is at least the minimum
  threshold and the note has at least the minimum number of such tags; among the
  qualifying tags the top two by (count descending, tie-break priority descending) are
  selected; if fewer than two tags qualify, the unfilled slots are empty. The vote counts
  of a note are a function from tag name to count, a note without ratings having count 0
  everywhere.
\<close>

definition eligibleTags ::
  "(int \<times> string) list \<Rightarrow> (string \<Rightarrow> int) \<Rightarrow> (int \<times> string) list" where
  "eligibleTags vocab counts =
     filter (\<lambda>(priority, tag). minRatingsToGetTag \<le> counts tag) vocab"

definition qualifyingTags ::
  "(int \<times> string) list \<Rightarrow> (string \<Rightarrow> int) \<Rightarrow> (int \<times> string) list" where
  "qualifyingTags vocab counts =
     (if int (length (eligibleTags vocab counts)) < minTagsNeededForStatus then []
      else eligibleTags vocab counts)"

definition rankedTags ::
  "(int \<times> string) list \<Rightarrow> (string \<Rightarrow> int) \<Rightarrow> (int \<times> string) list" where
  "rankedTags vocab counts =
     sort_key (\<lambda>(priority, tag). (- counts tag, - priority)) (qualifyingTags vocab counts)"

definition slot :: "nat \<Rightarrow> (int \<times> string) list \<Rightarrow> string option" where
  "slot i ranked = (if i < length ranked then Some (snd (ranked ! i)) else None)"

text \<open>The pair (firstTag, secondTag).\<close>

definition selectTags ::
  "(int \<times> string) list \<Rightarrow> (string \<Rightarrow> int) \<Rightarrow> string option \<times> string option" where
  "selectTags vocab counts =
     (slot 0 (rankedTags vocab counts), slot 1 (rankedTags vocab counts))"

text \<open>
  The tags that rank above a given entry of the vocabulary in the specification's order
  (count descending, tie-break priority descending): the tags that reach the minimum
  count and have a greater count, or the same count and a greater priority.
\<close>

definition rankedAbove ::
  "(int \<times> string) list \<Rightarrow> (string \<Rightarrow> int) \<Rightarrow> int \<times> string \<Rightarrow> (int \<times> string) list" where
  "rankedAbove vocab counts = (\<lambda>(priority1, tag1).
     filter (\<lambda>(priority, tag).
               counts tag1 < counts tag \<or> counts tag = counts tag1 \<and> priority1 < priority)
       (eligibleTags vocab counts))"

subsection \<open>The churn-rate limiter\<close>

text \<open>
  Modelled from the spec: the churn-rate limiter and the commit of a run, whose code is
  not in scoring/constants.py (the module holds the thresholds and the \<open>NoteSubset\<close>
  dataclass only). The specification: the input is the proposed (note, oldStatus,
  newStatus) triples of the run, partitioned into the subsets of the rescoring rules; for
  each subset, churnRate is the count of triples with oldStatus different from newStatus
  divided by the count of triples of the subset; if it exceeds the subset's maximum, the
  run fails; the history is committed either for all notes or, on such a failure, not at
  all, the previous run's history staying as it was.

  The quotient has no value for a subset without triples, which the specification does
  not mention: such a subset has no rate here, and nothing to exceed its maximum.
\<close>

type_synonym 'st triple = "int \<times> 'st \<times> 'st"

definition flips :: "'st triple list \<Rightarrow> nat" where
  "flips ts = length (filter (\<lambda>(note, oldStatus, newStatus). oldStatus \<noteq> newStatus) ts)"

definition churnRate :: "'st triple list \<Rightarrow> rat option" where
  "churnRate ts = (if ts = [] then None else Some (of_nat (flips ts) / of_nat (length ts)))"

definition exceedsMaximum :: "NoteSubset \<times> 'st triple list \<Rightarrow> bool" where
  "exceedsMaximum = (\<lambda>(noteSubset, ts).
     case churnRate ts of None \<Rightarrow> False | Some rate \<Rightarrow> maxCrhChurnRate noteSubset < rate)"

datatype run_error = ChurnLimitExceeded RescoringRuleID

definition churnLimiter :: "(NoteSubset \<times> 'st triple list) list \<Rightarrow> run_error + unit" where
  "churnLimiter subsets =
     (case find exceedsMaximum subsets of
        Some (noteSubset, ts) \<Rightarrow> Inl (ChurnLimitExceeded (description noteSubset))
      | None \<Rightarrow> Inr ())"

text \<open>
  The commit of a run: the outcome and the history that is persisted after it, from the
  history of the previous run and the history that the run proposes.
\<close>

definition commitRun ::
  "'h \<Rightarrow> 'h \<Rightarrow> (NoteSubset \<times> 'st triple list) list \<Rightarrow> (run_error + unit) \<times> 'h" where
  "commitRun previous proposed subsets =
     (case churnLimiter subsets of
        Inl e \<Rightarrow> (Inl e, previous)
      | Inr u \<Rightarrow> (Inr (), proposed))"

section \<open>Properties\<close>

subsection \<open>Auxiliary facts\<close>

lemma noteStatusHistoryTSVColumns_eq:
  "noteStatusHistoryTSVColumns =
     [noteIdKey, noteAuthorParticipantIdKey, createdAtMillisKey,
      timestampMillisOfNoteFirstNonNMRLabelKey, firstNonNMRLabelKey,
      timestampMillisOfNoteCurrentLabelKey, currentLabelKey,
      timestampMillisOfNoteMostRecentNonNMRLabelKey, mostRecentNonNMRLabelKey,
      timestampMillisOfStatusLockKey, lockedStatusKey, timestampMillisOfRetroLockKey,
      currentCoreStatusKey, currentExpansionStatusKey, currentGroupStatusKey,
      currentDecidedByKey, currentModelingGroupKey,
      timestampMillisOfMostRecentStatusChangeKey]"
  unfolding noteStatusHistoryTSVColumns_def noteStatusHistoryTSVColumnsAndTypes_def
  by simp

lemma RescoringRuleID_members_all: "set RescoringRuleID_members = UNIV"
proof -
  have "r \<in> set RescoringRuleID_members" for r
    unfolding RescoringRuleID_members_def by (cases r) simp_all
  then show ?thesis by blast
qed

text \<open>Sorting by a key reads the key on the elements of the list only.\<close>

lemma insort_key_cong_set:
  "f x = g x \<Longrightarrow> (\<And>y. y \<in> set ys \<Longrightarrow> f y = g y) \<Longrightarrow> insort_key f x ys = insort_key g x ys"
  by (induction ys) simp_all

lemma sort_key_cong_set:
  "(\<And>x. x \<in> set xs \<Longrightarrow> f x = g x) \<Longrightarrow> sort_key f xs = sort_key g xs"
proof (induction xs)
  case Nil
  then show ?case by simp
next
  case (Cons a xs)
  have "sort_key f xs = sort_key g xs" using Cons by simp
  moreover have "insort_key f a (sort_key g xs) = insort_key g a (sort_key g xs)"
    by (rule insort_key_cong_set) (use Cons.prems in auto)
  ultimately show ?case by simp
qed

lemma eligibleTags_subset: "set (eligibleTags vocab counts) \<subseteq> set vocab"
  unfolding eligibleTags_def by auto

lemma qualifyingTags_subset: "set (qualifyingTags vocab counts) \<subseteq> set (eligibleTags vocab counts)"
  unfolding qualifyingTags_def by simp

lemma set_rankedTags: "set (rankedTags vocab counts) = set (qualifyingTags vocab counts)"
  unfolding rankedTags_def by simp

lemma sorted_rankedTags:
  "sorted (map (\<lambda>(priority, tag). (- counts tag, - priority)) (rankedTags vocab counts))"
  unfolding rankedTags_def by (rule sorted_sort_key)

lemma slot_SomeD: "slot i ranked = Some t \<Longrightarrow> i < length ranked \<and> snd (ranked ! i) = t"
  unfolding slot_def by (simp split: if_splits)

lemma selectTags_cong:
  assumes "\<And>p t. (p, t) \<in> set vocab \<Longrightarrow> counts t = counts' t"
  shows "selectTags vocab counts = selectTags vocab counts'"
proof -
  have "eligibleTags vocab counts = eligibleTags vocab counts'"
    unfolding eligibleTags_def using assms by (intro filter_cong) auto
  then have q: "qualifyingTags vocab counts = qualifyingTags vocab counts'"
    unfolding qualifyingTags_def by simp
  have "rankedTags vocab counts = rankedTags vocab counts'"
    unfolding rankedTags_def q
    by (rule sort_key_cong_set)
      (use qualifyingTags_subset eligibleTags_subset assms in fastforce)
  then show ?thesis unfolding selectTags_def by simp
qed

text \<open>A selected tag is a ranked entry of the vocabulary.\<close>

lemma slot_rankedTags:
  assumes "slot i (rankedTags vocab counts) = Some t"
  shows "\<exists>p. (p, t) \<in> set (eligibleTags vocab counts)
           \<and> i < length (rankedTags vocab counts)
           \<and> rankedTags vocab counts ! i = (p, t)
           \<and> qualifyingTags vocab counts = eligibleTags vocab counts
           \<and> minTagsNeededForStatus \<le> int (length (eligibleTags vocab counts))"
proof -
  let ?r = "rankedTags vocab counts"
  from assms have i: "i < length ?r" and s: "snd (?r ! i) = t"
    by (auto dest: slot_SomeD)
  from i have m: "?r ! i \<in> set (qualifyingTags vocab counts)"
    using set_rankedTags nth_mem by blast
  then have ne: "qualifyingTags vocab counts \<noteq> []" by auto
  then have q: "qualifyingTags vocab counts = eligibleTags vocab counts"
    and n: "minTagsNeededForStatus \<le> int (length (eligibleTags vocab counts))"
    unfolding qualifyingTags_def by (auto split: if_splits)
  from s have "?r ! i = (fst (?r ! i), t)" by (metis prod.collapse)
  with m q i n show ?thesis by metis
qed

lemma selectTags_tie:
  assumes d: "distinct (map snd vocab)"
    and a: "(p1, t1) \<in> set vocab" and b: "(p2, t2) \<in> set vocab"
    and lt: "p2 < p1" and eq: "counts t1 = counts t2"
  shows "fst (selectTags vocab counts) \<noteq> Some t2
         \<and> (snd (selectTags vocab counts) = Some t2
              \<longrightarrow> fst (selectTags vocab counts) = Some t1)"
proof -
  let ?r = "rankedTags vocab counts"
  let ?k = "\<lambda>(priority, tag). (- counts tag, - priority)"
  from d have inj: "inj_on snd (set vocab)" by (simp add: distinct_map)
  have before: "\<exists>j < i. ?r ! j = (p1, t1)" if sl: "slot i ?r = Some t2" for i
  proof -
    from slot_rankedTags [OF sl] obtain p where
      el: "(p, t2) \<in> set (eligibleTags vocab counts)" and i: "i < length ?r"
      and ri: "?r ! i = (p, t2)"
      and q: "qualifyingTags vocab counts = eligibleTags vocab counts"
      by blast
    from el eligibleTags_subset have "(p, t2) \<in> set vocab" by blast
    with inj b have "(p, t2) = (p2, t2)" by (intro inj_onD [of snd "set vocab"]) simp_all
    then have p: "p = p2" by simp
    from el have "minRatingsToGetTag \<le> counts t2" unfolding eligibleTags_def by simp
    with a eq have "(p1, t1) \<in> set (eligibleTags vocab counts)"
      unfolding eligibleTags_def by simp
    with q have "(p1, t1) \<in> set ?r" by (simp add: set_rankedTags)
    then obtain j where j: "j < length ?r" and rj: "?r ! j = (p1, t1)"
      by (auto simp: in_set_conv_nth)
    have "j < i"
    proof (rule ccontr)
      assume "\<not> j < i"
      then have "i \<le> j" by simp
      with sorted_rankedTags [of counts vocab] j
      have "map ?k ?r ! i \<le> map ?k ?r ! j"
        by (intro sorted_nth_mono) simp_all
      with i j ri rj p have "(- counts t2, - p2) \<le> (- counts t1, - p1)" by simp
      with eq lt show False by simp
    qed
    with rj show ?thesis by blast
  qed
  have first: "fst (selectTags vocab counts) \<noteq> Some t2"
  proof
    assume "fst (selectTags vocab counts) = Some t2"
    then have "slot 0 ?r = Some t2" unfolding selectTags_def by simp
    from before [OF this] show False by simp
  qed
  have second: "fst (selectTags vocab counts) = Some t1"
    if "snd (selectTags vocab counts) = Some t2"
  proof -
    from that have sl: "slot 1 ?r = Some t2" unfolding selectTags_def by simp
    from before [OF sl] have r0: "?r ! 0 = (p1, t1)" by simp
    from slot_SomeD [OF sl] have "1 < length ?r" by blast
    then have "0 < length ?r" by linarith
    with r0 show ?thesis unfolding selectTags_def slot_def by simp
  qed
  from first second show ?thesis by blast
qed

lemma selectTags_eligible:
  assumes "fst (selectTags vocab counts) = Some t \<or> snd (selectTags vocab counts) = Some t"
  shows "t \<in> snd ` set vocab \<and> minRatingsToGetTag \<le> counts t
         \<and> minTagsNeededForStatus \<le> int (length (eligibleTags vocab counts))"
proof -
  from assms obtain i where "slot i (rankedTags vocab counts) = Some t"
    unfolding selectTags_def by auto
  from slot_rankedTags [OF this] obtain p where
    el: "(p, t) \<in> set (eligibleTags vocab counts)"
    and n: "minTagsNeededForStatus \<le> int (length (eligibleTags vocab counts))"
    by blast
  from el have "(p, t) \<in> set vocab" and "minRatingsToGetTag \<le> counts t"
    unfolding eligibleTags_def by auto
  with n show ?thesis by force
qed

lemma selectTags_no_ratings: "selectTags vocab (\<lambda>tag. 0) = (None, None)"
  unfolding selectTags_def rankedTags_def qualifyingTags_def eligibleTags_def slot_def
    minRatingsToGetTag_def minTagsNeededForStatus_def
  by simp

text \<open>
  A qualifying tag stands in the ranking at the position that is the number of tags
  ranked above it.
\<close>

lemma length_filter_insort_key:
  "length (filter P (insort_key f x xs)) = length (filter P (x # xs))"
  by (induction xs) auto

lemma length_filter_sort_key:
  "length (filter P (sort_key f xs)) = length (filter P xs)"
  by (induction xs) (simp_all add: length_filter_insort_key)

lemma filter_less_strict_sorted:
  fixes k :: "'a \<Rightarrow> 'b::linorder"
  shows "sorted_wrt (<) (map k r) \<Longrightarrow> j < length r
    \<Longrightarrow> filter (\<lambda>y. k y < k (r ! j)) r = take j r"
proof (induction r arbitrary: j)
  case Nil
  then show ?case by simp
next
  case (Cons a rs)
  from Cons.prems have above: "\<forall>y \<in> set rs. k a < k y" and rest: "sorted_wrt (<) (map k rs)"
    by simp_all
  show ?case
  proof (cases j)
    case 0
    from above have "filter (\<lambda>y. k y < k a) rs = []"
      by (auto simp: filter_empty_conv dest: order_less_asym)
    with 0 show ?thesis by simp
  next
    case (Suc j')
    with Cons.prems have j': "j' < length rs" by simp
    then have "rs ! j' \<in> set rs" by simp
    with above have "k a < k (rs ! j')" by blast
    with Suc Cons.IH [OF rest j'] show ?thesis by simp
  qed
qed

lemma strict_sorted_rankedTags:
  assumes "distinct (map fst vocab)"
  shows "sorted_wrt (<) (map (\<lambda>(priority, tag). (- counts tag, - priority))
           (rankedTags vocab counts))"
proof -
  let ?k = "\<lambda>(priority, tag). (- counts tag, - priority)"
  let ?r = "rankedTags vocab counts"
  from assms have dv: "distinct vocab" and inj: "inj_on fst (set vocab)"
    by (simp_all add: distinct_map)
  have sub: "set ?r \<subseteq> set vocab"
    using set_rankedTags qualifyingTags_subset eligibleTags_subset by blast
  from dv have "distinct (qualifyingTags vocab counts)"
    unfolding qualifyingTags_def eligibleTags_def by simp
  then have dr: "distinct ?r" unfolding rankedTags_def by simp
  have "inj_on ?k (set ?r)"
  proof (rule inj_onI)
    fix x y assume x: "x \<in> set ?r" and y: "y \<in> set ?r" and e: "?k x = ?k y"
    from e have "fst x = fst y" by (cases x, cases y) simp
    with inj x y sub show "x = y" by (auto dest: inj_onD)
  qed
  with dr have "distinct (map ?k ?r)" by (simp add: distinct_map)
  with sorted_rankedTags [of counts vocab] show ?thesis
    by (simp add: strict_sorted_iff)
qed

lemma slot_of_qualifying:
  assumes d: "distinct (map fst vocab)"
    and q: "(p1, t1) \<in> set (qualifyingTags vocab counts)"
  shows "slot (length (rankedAbove vocab counts (p1, t1))) (rankedTags vocab counts) = Some t1"
proof -
  let ?k = "\<lambda>(priority, tag). (- counts tag, - priority)"
  let ?r = "rankedTags vocab counts"
  from q have "qualifyingTags vocab counts \<noteq> []" by auto
  then have qe: "qualifyingTags vocab counts = eligibleTags vocab counts"
    unfolding qualifyingTags_def by (auto split: if_splits)
  from q have "(p1, t1) \<in> set ?r" by (simp add: set_rankedTags)
  then obtain j where j: "j < length ?r" and rj: "?r ! j = (p1, t1)"
    by (auto simp: in_set_conv_nth)
  have "rankedAbove vocab counts (p1, t1)
          = filter (\<lambda>y. ?k y < (- counts t1, - p1)) (eligibleTags vocab counts)"
    unfolding rankedAbove_def by (auto intro: filter_cong)
  then have "length (rankedAbove vocab counts (p1, t1))
          = length (filter (\<lambda>y. ?k y < (- counts t1, - p1)) ?r)"
    unfolding rankedTags_def qe by (simp only: length_filter_sort_key)
  also have "filter (\<lambda>y. ?k y < (- counts t1, - p1)) ?r = take j ?r"
    using filter_less_strict_sorted [OF strict_sorted_rankedTags [OF d] j]
    unfolding rj by simp
  also from j have "length (take j ?r) = j" by simp
  finally show ?thesis using j rj unfolding slot_def by simp
qed

text \<open>Two tied tags that reach the minimum count both qualify, and take the slots that their ranks give them.\<close>

lemma two_in_distinct_list:
  assumes "distinct xs" "a \<in> set xs" "b \<in> set xs" "a \<noteq> b"
  shows "2 \<le> length xs"
proof -
  from assms have "card {a, b} \<le> card (set xs)" by (intro card_mono) simp_all
  with assms show ?thesis by (simp add: distinct_card)
qed

lemma tied_tags_qualify:
  assumes df: "distinct (map fst vocab)"
    and a: "(p1, t1) \<in> set vocab" and b: "(p2, t2) \<in> set vocab"
    and lt: "p2 < p1" and eq: "counts t1 = counts t2"
    and m: "minRatingsToGetTag \<le> counts t1"
  shows "qualifyingTags vocab counts = eligibleTags vocab counts
         \<and> (p1, t1) \<in> set (eligibleTags vocab counts)
         \<and> (p2, t2) \<in> set (eligibleTags vocab counts)"
proof -
  from df have "distinct vocab" by (simp add: distinct_map)
  then have d: "distinct (eligibleTags vocab counts)" unfolding eligibleTags_def by simp
  from a b eq m have e1: "(p1, t1) \<in> set (eligibleTags vocab counts)"
    and e2: "(p2, t2) \<in> set (eligibleTags vocab counts)"
    unfolding eligibleTags_def by simp_all
  from lt have "(p1, t1) \<noteq> (p2, t2)" by simp
  from two_in_distinct_list [OF d e1 e2 this]
  have "\<not> int (length (eligibleTags vocab counts)) < minTagsNeededForStatus"
    unfolding minTagsNeededForStatus_def by simp
  then have "qualifyingTags vocab counts = eligibleTags vocab counts"
    unfolding qualifyingTags_def by simp
  with e1 e2 show ?thesis by simp
qed

lemma selectTags_tie_selected:
  assumes df: "distinct (map fst vocab)"
    and a: "(p1, t1) \<in> set vocab" and b: "(p2, t2) \<in> set vocab"
    and lt: "p2 < p1" and eq: "counts t1 = counts t2"
    and m: "minRatingsToGetTag \<le> counts t1"
  shows "(rankedAbove vocab counts (p1, t1) = []
           \<longrightarrow> fst (selectTags vocab counts) = Some t1)
       \<and> (length (rankedAbove vocab counts (p1, t1)) = 1
           \<longrightarrow> snd (selectTags vocab counts) = Some t1)
       \<and> (length (rankedAbove vocab counts (p2, t2)) = 1
           \<longrightarrow> selectTags vocab counts = (Some t1, Some t2))"
proof -
  from tied_tags_qualify [OF df a b lt eq m]
  have q: "qualifyingTags vocab counts = eligibleTags vocab counts"
    and e1: "(p1, t1) \<in> set (eligibleTags vocab counts)"
    and e2: "(p2, t2) \<in> set (eligibleTags vocab counts)" by simp_all
  from e1 q have s1: "slot (length (rankedAbove vocab counts (p1, t1)))
      (rankedTags vocab counts) = Some t1"
    by (intro slot_of_qualifying [OF df]) simp
  from e2 q have s2: "slot (length (rankedAbove vocab counts (p2, t2)))
      (rankedTags vocab counts) = Some t2"
    by (intro slot_of_qualifying [OF df]) simp
  have first: "fst (selectTags vocab counts) = Some t1"
    if "rankedAbove vocab counts (p1, t1) = []"
    using s1 that unfolding selectTags_def by simp
  have second: "snd (selectTags vocab counts) = Some t1"
    if "length (rankedAbove vocab counts (p1, t1)) = 1"
    using s1 that unfolding selectTags_def by simp
  have both: "selectTags vocab counts = (Some t1, Some t2)"
    if one: "length (rankedAbove vocab counts (p2, t2)) = 1"
  proof -
    from e1 lt eq have in2: "(p1, t1) \<in> set (rankedAbove vocab counts (p2, t2))"
      unfolding rankedAbove_def by simp
    from one obtain y where y: "rankedAbove vocab counts (p2, t2) = [y]"
      by (cases "rankedAbove vocab counts (p2, t2)") simp_all
    with in2 have only: "set (rankedAbove vocab counts (p2, t2)) = {(p1, t1)}" by simp
    have "set (rankedAbove vocab counts (p1, t1)) \<subseteq> set (rankedAbove vocab counts (p2, t2))"
      unfolding rankedAbove_def using lt eq by auto
    moreover have "(p1, t1) \<notin> set (rankedAbove vocab counts (p1, t1))"
      unfolding rankedAbove_def by simp
    ultimately have "rankedAbove vocab counts (p1, t1) = []"
      using only by (cases "rankedAbove vocab counts (p1, t1)") auto
    with s1 s2 one show ?thesis unfolding selectTags_def by simp
  qed
  from first second both show ?thesis by blast
qed

lemma notHelpful_priority_le: "\<forall>(p, t) \<in> set notHelpfulTagsAndTieBreakOrder. p \<le> 12"
  unfolding notHelpfulTagsAndTieBreakOrder_def by simp

lemma rankedAbove_notHelpfulOutdated:
  assumes "minRatingsToGetTag \<le> counts notHelpfulOutdatedTagKey"
  shows "rankedAbove notHelpfulTagsAndTieBreakOrder counts (12, notHelpfulOutdatedTagKey)
         = filter (\<lambda>(priority, tag). counts notHelpfulOutdatedTagKey < counts tag)
             notHelpfulTagsAndTieBreakOrder"
proof -
  have "rankedAbove notHelpfulTagsAndTieBreakOrder counts (12, notHelpfulOutdatedTagKey)
      = filter (\<lambda>(priority, tag). minRatingsToGetTag \<le> counts tag
          \<and> (counts notHelpfulOutdatedTagKey < counts tag
               \<or> counts tag = counts notHelpfulOutdatedTagKey \<and> 12 < priority))
          notHelpfulTagsAndTieBreakOrder"
    unfolding rankedAbove_def eligibleTags_def by (simp add: case_prod_unfold)
  also have "\<dots> = filter (\<lambda>(priority, tag). counts notHelpfulOutdatedTagKey < counts tag)
             notHelpfulTagsAndTieBreakOrder"
    using assms notHelpful_priority_le by (intro filter_cong) auto
  finally show ?thesis .
qed

text \<open>The limiter passes exactly the runs in which no subset exceeds its maximum.\<close>

lemma churnLimiter_Inr:
  "churnLimiter subsets = Inr u \<longleftrightarrow> (\<forall>x \<in> set subsets. \<not> exceedsMaximum x)"
  unfolding churnLimiter_def
  by (auto simp: find_None_iff find_Some_iff split: option.splits)

lemma exceedsMaximum_iff:
  "exceedsMaximum (s, ts) \<longleftrightarrow> (\<exists>rate. churnRate ts = Some rate \<and> maxCrhChurnRate s < rate)"
  unfolding exceedsMaximum_def by (simp split: option.splits)

lemma commitRun_cases:
  "commitRun previous proposed subsets = (Inr (), proposed) \<and> churnLimiter subsets = Inr ()
   \<or> (\<exists>e. commitRun previous proposed subsets = (Inl e, previous) \<and> churnLimiter subsets = Inl e)"
  unfolding commitRun_def by (cases "churnLimiter subsets") simp_all

subsection \<open>Rescoring rules and churn thresholds\<close>

text \<open>
  C1, as stated, numbers the rule for notes with new ratings 3. In the code the member
  with value 3 is the rule for notes that flipped in the previous run, and the rule for
  notes with new ratings has value 2.
\<close>

theorem rule_three_is_not_new_ratings:
  "RescoringRuleID_of_value 3 = Some NOTES_FLIPPED_PREVIOUS_RUN
   \<and> RescoringRuleID_of_value 3 \<noteq> Some NOTES_WITH_NEW_RATINGS
   \<and> RescoringRuleID_value NOTES_WITH_NEW_RATINGS = 2"
  unfolding RescoringRuleID_of_value_def RescoringRuleID_members_def by simp

text \<open>
  C1 (amended): there are exactly five rescoring rule identifiers, with the values 1 to 5
  in declaration order (all notes; notes with new ratings; notes flipped in the previous
  run; new notes not rescored recently enough; recently flipped notes not rescored
  recently enough). The maximum churn rates are five constants named by note population:
  0.04 for all unlocked notes in prescoring, 0.03 for unlocked notes with no new ratings,
  0.40 for notes with new ratings, and \<open>1e8\<close>, above every rate a population can have,
  for notes that just flipped status and for notes that flipped recently.
\<close>

theorem rescoring_rules_and_churn_thresholds:
  "set RescoringRuleID_members = UNIV
   \<and> RescoringRuleID_members =
       [ALL_NOTES, NOTES_WITH_NEW_RATINGS, NOTES_FLIPPED_PREVIOUS_RUN,
        NEW_NOTES_NOT_RESCORED_RECENTLY_ENOUGH,
        RECENTLY_FLIPPED_NOTES_NOT_RESCORED_RECENTLY_ENOUGH]
   \<and> map RescoringRuleID_value RescoringRuleID_members = [1, 2, 3, 4, 5]
   \<and> prescoringAllUnlockedNotesMaxCrhChurn = 4 / 100
   \<and> finalUnlockedNotesWithNoNewRatingsMaxCrhChurn = 3 / 100
   \<and> finalNotesWithNewRatingsMaxCrhChurn = 40 / 100
   \<and> finalNotesThatJustFlippedStatusMaxCrhChurn = 10 ^ 8
   \<and> finalNotesThatFlippedRecentlyMaxCrhChurn = 10 ^ 8
   \<and> 1 < finalNotesThatJustFlippedStatusMaxCrhChurn
   \<and> 1 < finalNotesThatFlippedRecentlyMaxCrhChurn"
proof -
  have "map RescoringRuleID_value RescoringRuleID_members = [1, 2, 3, 4, 5]"
    unfolding RescoringRuleID_members_def by simp
  with RescoringRuleID_members_all show ?thesis
    unfolding prescoringAllUnlockedNotesMaxCrhChurn_def
      finalUnlockedNotesWithNoNewRatingsMaxCrhChurn_def
      finalNotesWithNewRatingsMaxCrhChurn_def
      finalNotesThatJustFlippedStatusMaxCrhChurn_def
      finalNotesThatFlippedRecentlyMaxCrhChurn_def
    by (simp add: RescoringRuleID_members_def)
qed

subsection \<open>The churn-rate limiter and the commit\<close>

text \<open>
  C2: the churn rate of a subset with triples is the number of its flips divided by the
  number of its triples. In a committed run every subset's rate is at most the subset's
  maximum, and the proposed history is persisted. A run in which a subset's rate exceeds
  its maximum fails with ChurnLimitExceeded and the previous history stays persisted. A
  run either commits the whole proposed history or keeps the whole previous one.
\<close>

theorem churn_limit_gates_commit:
  "(ts \<noteq> [] \<longrightarrow> churnRate ts = Some (of_nat (flips ts) / of_nat (length ts)))
   \<and> (fst (commitRun previous proposed subsets) = Inr ()
        \<longrightarrow> snd (commitRun previous proposed subsets) = proposed
            \<and> (\<forall>(s, ts') \<in> set subsets. \<forall>rate. churnRate ts' = Some rate
                  \<longrightarrow> rate \<le> maxCrhChurnRate s))
   \<and> ((\<exists>(s, ts') \<in> set subsets. \<exists>rate. churnRate ts' = Some rate \<and> maxCrhChurnRate s < rate)
        \<longrightarrow> (\<exists>r. fst (commitRun previous proposed subsets) = Inl (ChurnLimitExceeded r))
            \<and> snd (commitRun previous proposed subsets) = previous)
   \<and> (commitRun previous proposed subsets = (Inr (), proposed)
        \<or> (\<exists>r. commitRun previous proposed subsets = (Inl (ChurnLimitExceeded r), previous)))"
proof -
  have rate: "ts \<noteq> [] \<longrightarrow> churnRate ts = Some (of_nat (flips ts) / of_nat (length ts))"
    unfolding churnRate_def by simp
  have ok: "snd (commitRun previous proposed subsets) = proposed
            \<and> (\<forall>(s, ts') \<in> set subsets. \<forall>rate. churnRate ts' = Some rate
                  \<longrightarrow> rate \<le> maxCrhChurnRate s)"
    if "fst (commitRun previous proposed subsets) = Inr ()"
  proof -
    from that commitRun_cases [of previous proposed subsets]
    have c: "commitRun previous proposed subsets = (Inr (), proposed)"
      and l: "churnLimiter subsets = Inr ()" by auto
    from l have "\<forall>x \<in> set subsets. \<not> exceedsMaximum x" by (simp add: churnLimiter_Inr)
    then have "\<forall>(s, ts') \<in> set subsets. \<forall>rate. churnRate ts' = Some rate
                  \<longrightarrow> rate \<le> maxCrhChurnRate s"
      by (fastforce simp: exceedsMaximum_iff)
    with c show ?thesis by simp
  qed
  have bad: "(\<exists>r. fst (commitRun previous proposed subsets) = Inl (ChurnLimitExceeded r))
            \<and> snd (commitRun previous proposed subsets) = previous"
    if "\<exists>(s, ts') \<in> set subsets. \<exists>rate. churnRate ts' = Some rate \<and> maxCrhChurnRate s < rate"
  proof -
    from that obtain s ts' rate where m: "(s, ts') \<in> set subsets"
      and r: "churnRate ts' = Some rate" "maxCrhChurnRate s < rate"
      by blast
    from r have "exceedsMaximum (s, ts')" unfolding exceedsMaximum_iff by blast
    with m have "\<exists>x \<in> set subsets. exceedsMaximum x" by blast
    then have "churnLimiter subsets \<noteq> Inr ()" by (simp add: churnLimiter_Inr)
    with commitRun_cases [of previous proposed subsets] obtain e where
      "commitRun previous proposed subsets = (Inl e, previous)" by auto
    then show ?thesis by (cases e) simp
  qed
  have all: "commitRun previous proposed subsets = (Inr (), proposed)
        \<or> (\<exists>r. commitRun previous proposed subsets = (Inl (ChurnLimitExceeded r), previous))"
    using commitRun_cases [of previous proposed subsets] by (metis run_error.exhaust)
  from rate ok bad all show ?thesis by blast
qed

text \<open>
  C2 at a run with one subset of three notes and one flip under the maximum 0.40, which
  commits, and at the same run with a second subset of two notes and one flip under the
  maximum 0.03, which fails and keeps the previous history.
\<close>

theorem churn_limit_gates_commit_witness:
  "churnRate [(1::int, needsMoreRatings, currentlyRatedHelpful),
              (2, needsMoreRatings, needsMoreRatings),
              (3, currentlyRatedHelpful, currentlyRatedHelpful)] = Some (1 / 3)
   \<and> commitRun ''previous'' ''proposed''
        [(\<lparr>noteSet = Some {1, 2, 3}, maxCrhChurnRate = finalNotesWithNewRatingsMaxCrhChurn,
           description = NOTES_WITH_NEW_RATINGS\<rparr>,
          [(1, needsMoreRatings, currentlyRatedHelpful),
           (2, needsMoreRatings, needsMoreRatings),
           (3, currentlyRatedHelpful, currentlyRatedHelpful)])]
       = (Inr (), ''proposed'')
   \<and> commitRun ''previous'' ''proposed''
        [(\<lparr>noteSet = Some {1, 2, 3}, maxCrhChurnRate = finalNotesWithNewRatingsMaxCrhChurn,
           description = NOTES_WITH_NEW_RATINGS\<rparr>,
          [(1, needsMoreRatings, currentlyRatedHelpful),
           (2, needsMoreRatings, needsMoreRatings),
           (3, currentlyRatedHelpful, currentlyRatedHelpful)]),
         (\<lparr>noteSet = None, maxCrhChurnRate = finalUnlockedNotesWithNoNewRatingsMaxCrhChurn,
           description = ALL_NOTES\<rparr>,
          [(4, needsMoreRatings, currentlyRatedNotHelpful),
           (5, needsMoreRatings, needsMoreRatings)])]
       = (Inl (ChurnLimitExceeded ALL_NOTES), ''previous'')"
  using churn_limit_gates_commit
    [of "[(1::int, needsMoreRatings, currentlyRatedHelpful),
              (2, needsMoreRatings, needsMoreRatings),
              (3, currentlyRatedHelpful, currentlyRatedHelpful)]"
        "''previous''" "''proposed''"
        "[(\<lparr>noteSet = Some {1, 2, 3}, maxCrhChurnRate = finalNotesWithNewRatingsMaxCrhChurn,
           description = NOTES_WITH_NEW_RATINGS\<rparr>,
          [(1, needsMoreRatings, currentlyRatedHelpful),
           (2, needsMoreRatings, needsMoreRatings),
           (3, currentlyRatedHelpful, currentlyRatedHelpful)])]"]
    churn_limit_gates_commit
    [of "[(1::int, needsMoreRatings, currentlyRatedHelpful)]"
        "''previous''" "''proposed''"
        "[(\<lparr>noteSet = Some {1, 2, 3}, maxCrhChurnRate = finalNotesWithNewRatingsMaxCrhChurn,
           description = NOTES_WITH_NEW_RATINGS\<rparr>,
          [(1, needsMoreRatings, currentlyRatedHelpful),
           (2, needsMoreRatings, needsMoreRatings),
           (3, currentlyRatedHelpful, currentlyRatedHelpful)]),
         (\<lparr>noteSet = None, maxCrhChurnRate = finalUnlockedNotesWithNoNewRatingsMaxCrhChurn,
           description = ALL_NOTES\<rparr>,
          [(4, needsMoreRatings, currentlyRatedNotHelpful),
           (5, needsMoreRatings, needsMoreRatings)])]"]
  unfolding commitRun_def churnLimiter_def exceedsMaximum_def churnRate_def flips_def
    finalNotesWithNewRatingsMaxCrhChurn_def finalUnlockedNotesWithNoNewRatingsMaxCrhChurn_def keys
  by simp

subsection \<open>Tag vocabularies\<close>

text \<open>
  C3: the helpful vocabulary has 9 tags and the not-helpful vocabulary 13, all distinct;
  each tag has its own tie-break priority (the priorities are the numbers 0 to 8 and 0 to
  12); in each vocabulary the only tag of priority at most 0 is the catch-all other tag,
  with priority 0, and it comes first in the tie-break order, where a later tag wins.
\<close>

theorem tag_vocabularies_other_is_unique_minimum:
  "length helpfulTagsTSVOrder = 9 \<and> distinct helpfulTagsTSVOrder
   \<and> length notHelpfulTagsTSVOrder = 13 \<and> distinct notHelpfulTagsTSVOrder
   \<and> sort (map fst helpfulTagsAndTieBreakOrder) = [0, 1, 2, 3, 4, 5, 6, 7, 8]
   \<and> sort (map fst notHelpfulTagsAndTieBreakOrder) = [0, 1, 2, 3, 4, 5, 6, 7, 8, 9, 10, 11, 12]
   \<and> filter (\<lambda>(priority, tag). priority \<le> 0) helpfulTagsAndTieBreakOrder
       = [(0, helpfulOtherTagKey)]
   \<and> filter (\<lambda>(priority, tag). priority \<le> 0) notHelpfulTagsAndTieBreakOrder
       = [(0, notHelpfulOtherTagKey)]
   \<and> hd helpfulTagsTiebreakOrder = helpfulOtherTagKey
   \<and> hd notHelpfulTagsTiebreakOrder = notHelpfulOtherTagKey"
proof -
  have a: "length helpfulTagsTSVOrder = 9 \<and> distinct helpfulTagsTSVOrder"
    unfolding helpfulTagsTSVOrder_def helpfulTagsAndTieBreakOrder_def keys by simp
  have b: "length notHelpfulTagsTSVOrder = 13 \<and> distinct notHelpfulTagsTSVOrder"
    unfolding notHelpfulTagsTSVOrder_def notHelpfulTagsAndTieBreakOrder_def keys by simp
  have c: "sort (map fst helpfulTagsAndTieBreakOrder) = [0, 1, 2, 3, 4, 5, 6, 7, 8]"
    unfolding helpfulTagsAndTieBreakOrder_def by simp
  have d: "sort (map fst notHelpfulTagsAndTieBreakOrder)
             = [0, 1, 2, 3, 4, 5, 6, 7, 8, 9, 10, 11, 12]"
    unfolding notHelpfulTagsAndTieBreakOrder_def by simp
  have e: "filter (\<lambda>(priority, tag). priority \<le> 0) helpfulTagsAndTieBreakOrder
             = [(0, helpfulOtherTagKey)]"
    unfolding helpfulTagsAndTieBreakOrder_def by simp
  have f: "filter (\<lambda>(priority, tag). priority \<le> 0) notHelpfulTagsAndTieBreakOrder
             = [(0, notHelpfulOtherTagKey)]"
    unfolding notHelpfulTagsAndTieBreakOrder_def by simp
  have g: "hd helpfulTagsTiebreakOrder = helpfulOtherTagKey"
    unfolding helpfulTagsTiebreakOrder_def helpfulTagsAndTieBreakOrder_def keys
    by code_simp
  have h: "hd notHelpfulTagsTiebreakOrder = notHelpfulOtherTagKey"
    unfolding notHelpfulTagsTiebreakOrder_def notHelpfulTagsAndTieBreakOrder_def keys
    by code_simp
  from a b c d e f g h show ?thesis by blast
qed

subsection \<open>Tag selection\<close>

text \<open>
  C4: the selected pair is a function of the vote counts of the vocabulary's tags and of
  nothing else. If two tags of a vocabulary have equal counts, the one with the lower
  priority is never the first tag, and when it is the second tag the one with the higher
  priority is the first. If the two reach the minimum count, the one with the higher
  priority is selected whenever fewer than two tags rank above it: as first tag when no
  tag ranks above it, as second tag when one does; and when it alone ranks above the one
  with the lower priority, the pair is the two of them in that order. In the not-helpful
  vocabulary notHelpfulOutdated has priority 12, the maximum, and is last in the tie-break
  order, notHelpfulOther has priority 0, and at equal counts that reach the minimum
  notHelpfulOutdated is selected ahead of notHelpfulOther, as first tag when no tag has
  more votes and as second tag when one tag has.
\<close>

theorem tag_selection_tie_break:
  "((\<forall>(p, t) \<in> set vocab. counts t = counts' t)
      \<longrightarrow> selectTags vocab counts = selectTags vocab counts')
   \<and> (distinct (map snd vocab) \<and> (p1, t1) \<in> set vocab \<and> (p2, t2) \<in> set vocab
        \<and> p2 < p1 \<and> counts t1 = counts t2
      \<longrightarrow> fst (selectTags vocab counts) \<noteq> Some t2
          \<and> (snd (selectTags vocab counts) = Some t2
               \<longrightarrow> fst (selectTags vocab counts) = Some t1))
   \<and> (distinct (map fst vocab) \<and> (p1, t1) \<in> set vocab \<and> (p2, t2) \<in> set vocab
        \<and> p2 < p1 \<and> counts t1 = counts t2 \<and> minRatingsToGetTag \<le> counts t1
      \<longrightarrow> (rankedAbove vocab counts (p1, t1) = []
             \<longrightarrow> fst (selectTags vocab counts) = Some t1)
          \<and> (length (rankedAbove vocab counts (p1, t1)) = 1
             \<longrightarrow> snd (selectTags vocab counts) = Some t1)
          \<and> (length (rankedAbove vocab counts (p2, t2)) = 1
             \<longrightarrow> selectTags vocab counts = (Some t1, Some t2)))
   \<and> filter (\<lambda>(priority, tag). 12 \<le> priority) notHelpfulTagsAndTieBreakOrder
       = [(12, notHelpfulOutdatedTagKey)]
   \<and> notHelpfulTagsTiebreakMapping notHelpfulOutdatedTagKey = Some 12
   \<and> notHelpfulTagsTiebreakMapping notHelpfulOtherTagKey = Some 0
   \<and> last notHelpfulTagsTiebreakOrder = notHelpfulOutdatedTagKey
   \<and> (counts notHelpfulOutdatedTagKey = counts notHelpfulOtherTagKey
      \<longrightarrow> fst (selectTags notHelpfulTagsAndTieBreakOrder counts) \<noteq> Some notHelpfulOtherTagKey
          \<and> (snd (selectTags notHelpfulTagsAndTieBreakOrder counts) = Some notHelpfulOtherTagKey
               \<longrightarrow> fst (selectTags notHelpfulTagsAndTieBreakOrder counts)
                     = Some notHelpfulOutdatedTagKey))
   \<and> (counts notHelpfulOutdatedTagKey = counts notHelpfulOtherTagKey
        \<and> minRatingsToGetTag \<le> counts notHelpfulOutdatedTagKey
      \<longrightarrow> (filter (\<lambda>(priority, tag). counts notHelpfulOutdatedTagKey < counts tag)
              notHelpfulTagsAndTieBreakOrder = []
             \<longrightarrow> fst (selectTags notHelpfulTagsAndTieBreakOrder counts)
                   = Some notHelpfulOutdatedTagKey)
          \<and> (length (filter (\<lambda>(priority, tag). counts notHelpfulOutdatedTagKey < counts tag)
                notHelpfulTagsAndTieBreakOrder) = 1
             \<longrightarrow> snd (selectTags notHelpfulTagsAndTieBreakOrder counts)
                   = Some notHelpfulOutdatedTagKey))"
proof -
  have det: "(\<forall>(p, t) \<in> set vocab. counts t = counts' t)
      \<longrightarrow> selectTags vocab counts = selectTags vocab counts'"
    by (auto intro: selectTags_cong)
  have tie: "distinct (map snd vocab) \<and> (p1, t1) \<in> set vocab \<and> (p2, t2) \<in> set vocab
        \<and> p2 < p1 \<and> counts t1 = counts t2
      \<longrightarrow> fst (selectTags vocab counts) \<noteq> Some t2
          \<and> (snd (selectTags vocab counts) = Some t2
               \<longrightarrow> fst (selectTags vocab counts) = Some t1)"
    using selectTags_tie [of vocab p1 t1 p2 t2 counts] by blast
  have pos: "distinct (map fst vocab) \<and> (p1, t1) \<in> set vocab \<and> (p2, t2) \<in> set vocab
        \<and> p2 < p1 \<and> counts t1 = counts t2 \<and> minRatingsToGetTag \<le> counts t1
      \<longrightarrow> (rankedAbove vocab counts (p1, t1) = []
             \<longrightarrow> fst (selectTags vocab counts) = Some t1)
          \<and> (length (rankedAbove vocab counts (p1, t1)) = 1
             \<longrightarrow> snd (selectTags vocab counts) = Some t1)
          \<and> (length (rankedAbove vocab counts (p2, t2)) = 1
             \<longrightarrow> selectTags vocab counts = (Some t1, Some t2))"
    using selectTags_tie_selected [of vocab p1 t1 p2 t2 counts] by blast
  have top: "filter (\<lambda>(priority, tag). 12 \<le> priority) notHelpfulTagsAndTieBreakOrder
       = [(12, notHelpfulOutdatedTagKey)]"
    unfolding notHelpfulTagsAndTieBreakOrder_def by simp
  have m1: "notHelpfulTagsTiebreakMapping notHelpfulOutdatedTagKey = Some 12"
    unfolding notHelpfulTagsTiebreakMapping_def notHelpfulTagsAndTieBreakOrder_def keys
    by simp
  have m2: "notHelpfulTagsTiebreakMapping notHelpfulOtherTagKey = Some 0"
    unfolding notHelpfulTagsTiebreakMapping_def notHelpfulTagsAndTieBreakOrder_def keys
    by simp
  have l: "last notHelpfulTagsTiebreakOrder = notHelpfulOutdatedTagKey"
    unfolding notHelpfulTagsTiebreakOrder_def notHelpfulTagsAndTieBreakOrder_def keys
    by code_simp
  have d: "distinct (map snd notHelpfulTagsAndTieBreakOrder)"
    unfolding notHelpfulTagsAndTieBreakOrder_def keys by simp
  have df: "distinct (map fst notHelpfulTagsAndTieBreakOrder)"
    unfolding notHelpfulTagsAndTieBreakOrder_def by simp
  have a: "(12, notHelpfulOutdatedTagKey) \<in> set notHelpfulTagsAndTieBreakOrder"
    and b: "(0, notHelpfulOtherTagKey) \<in> set notHelpfulTagsAndTieBreakOrder"
    unfolding notHelpfulTagsAndTieBreakOrder_def by simp_all
  have inst: "counts notHelpfulOutdatedTagKey = counts notHelpfulOtherTagKey
      \<longrightarrow> fst (selectTags notHelpfulTagsAndTieBreakOrder counts) \<noteq> Some notHelpfulOtherTagKey
          \<and> (snd (selectTags notHelpfulTagsAndTieBreakOrder counts) = Some notHelpfulOtherTagKey
               \<longrightarrow> fst (selectTags notHelpfulTagsAndTieBreakOrder counts)
                     = Some notHelpfulOutdatedTagKey)"
    using selectTags_tie [OF d a b] by simp
  have instpos: "(filter (\<lambda>(priority, tag). counts notHelpfulOutdatedTagKey < counts tag)
              notHelpfulTagsAndTieBreakOrder = []
             \<longrightarrow> fst (selectTags notHelpfulTagsAndTieBreakOrder counts)
                   = Some notHelpfulOutdatedTagKey)
          \<and> (length (filter (\<lambda>(priority, tag). counts notHelpfulOutdatedTagKey < counts tag)
                notHelpfulTagsAndTieBreakOrder) = 1
             \<longrightarrow> snd (selectTags notHelpfulTagsAndTieBreakOrder counts)
                   = Some notHelpfulOutdatedTagKey)"
    if e: "counts notHelpfulOutdatedTagKey = counts notHelpfulOtherTagKey"
      and m: "minRatingsToGetTag \<le> counts notHelpfulOutdatedTagKey"
    using selectTags_tie_selected [OF df a b _ e m]
    unfolding rankedAbove_notHelpfulOutdated [of counts, OF m] by simp
  from det tie pos top m1 m2 l inst instpos show ?thesis by blast
qed

text \<open>
  C4 at a note with three votes each for notHelpfulOutdated and notHelpfulOther and one
  for notHelpfulIncorrect, where a count for a name outside the vocabulary changes
  nothing, and at a note with five votes each for the two and nine for
  notHelpfulIncorrect, where notHelpfulOutdated is the second tag and notHelpfulOther is
  not selected.
\<close>

theorem tag_selection_tie_break_witness:
  "distinct (map snd notHelpfulTagsAndTieBreakOrder)
   \<and> distinct (map fst notHelpfulTagsAndTieBreakOrder)
   \<and> (12, notHelpfulOutdatedTagKey) \<in> set notHelpfulTagsAndTieBreakOrder
   \<and> (0, notHelpfulOtherTagKey) \<in> set notHelpfulTagsAndTieBreakOrder
   \<and> selectTags notHelpfulTagsAndTieBreakOrder
        ((\<lambda>tag. 0)(notHelpfulOutdatedTagKey := 3, notHelpfulOtherTagKey := 3,
                   notHelpfulIncorrectTagKey := 1))
       = (Some notHelpfulOutdatedTagKey, Some notHelpfulOtherTagKey)
   \<and> selectTags notHelpfulTagsAndTieBreakOrder
        ((\<lambda>tag. 0)(notHelpfulOutdatedTagKey := 3, notHelpfulOtherTagKey := 3,
                   notHelpfulIncorrectTagKey := 1, ''unrelated'' := 9))
       = (Some notHelpfulOutdatedTagKey, Some notHelpfulOtherTagKey)
   \<and> filter (\<lambda>(priority, tag).
          ((\<lambda>tag. 0)(notHelpfulOutdatedTagKey := 5, notHelpfulOtherTagKey := 5,
                     notHelpfulIncorrectTagKey := (9::int))) notHelpfulOutdatedTagKey
          < ((\<lambda>tag. 0)(notHelpfulOutdatedTagKey := 5, notHelpfulOtherTagKey := 5,
                       notHelpfulIncorrectTagKey := 9)) tag)
        notHelpfulTagsAndTieBreakOrder = [(8, notHelpfulIncorrectTagKey)]
   \<and> snd (selectTags notHelpfulTagsAndTieBreakOrder
        ((\<lambda>tag. 0)(notHelpfulOutdatedTagKey := 5, notHelpfulOtherTagKey := 5,
                   notHelpfulIncorrectTagKey := 9)))
       = Some notHelpfulOutdatedTagKey
   \<and> selectTags notHelpfulTagsAndTieBreakOrder
        ((\<lambda>tag. 0)(notHelpfulOutdatedTagKey := 5, notHelpfulOtherTagKey := 5,
                   notHelpfulIncorrectTagKey := 9))
       = (Some notHelpfulIncorrectTagKey, Some notHelpfulOutdatedTagKey)"
proof -
  let ?v = notHelpfulTagsAndTieBreakOrder
  let ?c = "(\<lambda>tag. 0)(notHelpfulOutdatedTagKey := 3, notHelpfulOtherTagKey := 3,
                   notHelpfulIncorrectTagKey := (1::int))"
  let ?c' = "(\<lambda>tag. 0)(notHelpfulOutdatedTagKey := 3, notHelpfulOtherTagKey := 3,
                   notHelpfulIncorrectTagKey := (1::int), ''unrelated'' := 9)"
  let ?d = "(\<lambda>tag. 0)(notHelpfulOutdatedTagKey := 5, notHelpfulOtherTagKey := 5,
                   notHelpfulIncorrectTagKey := (9::int))"
  have ds: "distinct (map snd ?v)"
    unfolding notHelpfulTagsAndTieBreakOrder_def keys by simp
  have df: "distinct (map fst ?v)"
    unfolding notHelpfulTagsAndTieBreakOrder_def by simp
  have a: "(12, notHelpfulOutdatedTagKey) \<in> set ?v" and b: "(0, notHelpfulOtherTagKey) \<in> set ?v"
    unfolding notHelpfulTagsAndTieBreakOrder_def by simp_all
  have same: "\<forall>(p, t) \<in> set ?v. ?c t = ?c' t"
    unfolding notHelpfulTagsAndTieBreakOrder_def keys by simp
  have ed: "?d notHelpfulOutdatedTagKey = ?d notHelpfulOtherTagKey"
    and md: "minRatingsToGetTag \<le> ?d notHelpfulOutdatedTagKey"
    unfolding minRatingsToGetTag_def keys by simp_all
  have fd: "filter (\<lambda>(priority, tag). ?d notHelpfulOutdatedTagKey < ?d tag) ?v
              = [(8, notHelpfulIncorrectTagKey)]"
    unfolding notHelpfulTagsAndTieBreakOrder_def keys by simp
  have two: "selectTags ?v ?c = (Some notHelpfulOutdatedTagKey, Some notHelpfulOtherTagKey)"
    unfolding selectTags_def rankedTags_def qualifyingTags_def eligibleTags_def slot_def
      notHelpfulTagsAndTieBreakOrder_def minRatingsToGetTag_def minTagsNeededForStatus_def keys
    by simp
  have three: "selectTags ?v ?d = (Some notHelpfulIncorrectTagKey, Some notHelpfulOutdatedTagKey)"
    unfolding selectTags_def rankedTags_def qualifyingTags_def eligibleTags_def slot_def
      notHelpfulTagsAndTieBreakOrder_def minRatingsToGetTag_def minTagsNeededForStatus_def keys
    by simp
  note t1 = tag_selection_tie_break
    [of ?v ?c ?c' 12 notHelpfulOutdatedTagKey 0 notHelpfulOtherTagKey]
  note t2 = tag_selection_tie_break
    [of ?v ?d ?d 12 notHelpfulOutdatedTagKey 0 notHelpfulOtherTagKey]
  from t1 same have det: "selectTags ?v ?c = selectTags ?v ?c'" by blast
  from fd have "length (filter (\<lambda>(priority, tag). ?d notHelpfulOutdatedTagKey < ?d tag) ?v) = 1"
    by simp
  with t2 ed md have second: "snd (selectTags ?v ?d) = Some notHelpfulOutdatedTagKey"
    by blast
  from det two have two':
    "selectTags ?v ?c' = (Some notHelpfulOutdatedTagKey, Some notHelpfulOtherTagKey)"
    by simp
  show ?thesis by (intro conjI ds df a b two two' fd second three)
qed

text \<open>
  C5: the thresholds are 2 and 2; a selected tag is a tag of the vocabulary whose count is
  at least minRatingsToGetTag, on a note where at least minTagsNeededForStatus tags have
  such a count; a note with no ratings gets the pair (None, None), a value and not an
  error.
\<close>

theorem tag_eligibility:
  "minRatingsToGetTag = 2 \<and> minTagsNeededForStatus = 2
   \<and> (fst (selectTags vocab counts) = Some t \<or> snd (selectTags vocab counts) = Some t
      \<longrightarrow> t \<in> snd ` set vocab \<and> minRatingsToGetTag \<le> counts t
          \<and> minTagsNeededForStatus \<le> int (length (eligibleTags vocab counts)))
   \<and> selectTags vocab (\<lambda>tag. 0) = (None, None)"
  using selectTags_eligible [of vocab counts t] selectTags_no_ratings [of vocab]
  by (simp add: minRatingsToGetTag_def minTagsNeededForStatus_def)

text \<open>
  C5 at a note with four votes for helpfulClear, two for helpfulInformative and one for
  helpfulOther, and at a note where only helpfulClear reaches the threshold.
\<close>

theorem tag_eligibility_witness:
  "fst (selectTags helpfulTagsAndTieBreakOrder
          ((\<lambda>tag. 0)(''helpfulClear'' := 4, ''helpfulInformative'' := 2, helpfulOtherTagKey := 1)))
     = Some ''helpfulClear''
   \<and> snd (selectTags helpfulTagsAndTieBreakOrder
          ((\<lambda>tag. 0)(''helpfulClear'' := 4, ''helpfulInformative'' := 2, helpfulOtherTagKey := 1)))
     = Some ''helpfulInformative''
   \<and> ''helpfulClear'' \<in> snd ` set helpfulTagsAndTieBreakOrder
   \<and> minRatingsToGetTag \<le> (4::int)
   \<and> length (eligibleTags helpfulTagsAndTieBreakOrder
          ((\<lambda>tag. 0)(''helpfulClear'' := 4, ''helpfulInformative'' := 2, helpfulOtherTagKey := 1))) = 2
   \<and> selectTags helpfulTagsAndTieBreakOrder
          ((\<lambda>tag. 0)(''helpfulClear'' := 4, helpfulOtherTagKey := 1)) = (None, None)
   \<and> selectTags helpfulTagsAndTieBreakOrder (\<lambda>tag. 0) = (None, None)"
  using tag_eligibility
    [of helpfulTagsAndTieBreakOrder
        "(\<lambda>tag. 0)(''helpfulClear'' := 4, ''helpfulInformative'' := 2, helpfulOtherTagKey := 1)"
        "''helpfulClear''"]
  unfolding selectTags_def rankedTags_def qualifyingTags_def eligibleTags_def slot_def
    helpfulTagsAndTieBreakOrder_def minRatingsToGetTag_def minTagsNeededForStatus_def keys
  by simp

subsection \<open>The status history schema\<close>

text \<open>
  C6, as stated, lists the fields of the record exhaustively. The schema also has the
  author of the note, which the list does not name.
\<close>

theorem status_history_has_author_column:
  "noteAuthorParticipantIdKey \<in> set noteStatusHistoryTSVColumns
   \<and> noteAuthorParticipantIdKey \<notin> set statusHistoryRecordFields_spec
   \<and> set noteStatusHistoryTSVColumns \<noteq> set statusHistoryRecordFields_spec"
proof -
  have a: "noteAuthorParticipantIdKey \<in> set noteStatusHistoryTSVColumns"
    unfolding noteStatusHistoryTSVColumns_eq by simp
  have b: "noteAuthorParticipantIdKey \<notin> set statusHistoryRecordFields_spec"
    unfolding statusHistoryRecordFields_spec_def keys by simp
  from a b show ?thesis by blast
qed

text \<open>
  C6 (amended): the persisted record has 18 distinct columns: the note id, the id of the
  note's author, and the 16 fields that the specification lists.
\<close>

theorem status_history_columns:
  "set noteStatusHistoryTSVColumns
     = {noteIdKey, noteAuthorParticipantIdKey} \<union> set statusHistoryRecordFields_spec
   \<and> length noteStatusHistoryTSVColumns = 18
   \<and> distinct noteStatusHistoryTSVColumns
   \<and> length statusHistoryRecordFields_spec = 16"
proof -
  have a: "set noteStatusHistoryTSVColumns
             = {noteIdKey, noteAuthorParticipantIdKey} \<union> set statusHistoryRecordFields_spec"
    unfolding noteStatusHistoryTSVColumns_eq statusHistoryRecordFields_spec_def by auto
  have b: "distinct noteStatusHistoryTSVColumns"
    unfolding noteStatusHistoryTSVColumns_eq keys by simp
  have c: "length noteStatusHistoryTSVColumns = 18"
    unfolding noteStatusHistoryTSVColumns_eq by simp
  have d: "length statusHistoryRecordFields_spec = 16"
    unfolding statusHistoryRecordFields_spec_def by simp
  from a b c d show ?thesis by blast
qed

text \<open>
  C7: each of the six optional timestamps is an \<open>np.double\<close> column, and they are all
  the columns whose key starts with \<open>timestampMillis\<close>; such a column holds NaN as well
  as the number zero, and the two are different cells. The creation time, which is not
  optional, is an \<open>np.int64\<close> column, which holds no NaN.
\<close>

theorem optional_timestamps_nullable:
  "map noteStatusHistoryTSVTypeMapping optionalTimestampKeys
     = [Some np_double, Some np_double, Some np_double, Some np_double, Some np_double,
        Some np_double]
   \<and> optionalTimestampKeys
       = filter (\<lambda>k. take 15 k = ''timestampMillis'') noteStatusHistoryTSVColumns
   \<and> holds np_double NaN \<and> holds np_double (DoubleCell 0) \<and> NaN \<noteq> DoubleCell 0
   \<and> noteStatusHistoryTSVTypeMapping createdAtMillisKey = Some np_int64
   \<and> \<not> holds np_int64 NaN"
proof -
  have a: "map noteStatusHistoryTSVTypeMapping optionalTimestampKeys
             = [Some np_double, Some np_double, Some np_double, Some np_double,
                Some np_double, Some np_double]"
    unfolding noteStatusHistoryTSVTypeMapping_def noteStatusHistoryTSVColumnsAndTypes_def
      optionalTimestampKeys_def keys
    by simp
  have b: "optionalTimestampKeys
             = filter (\<lambda>k. take 15 k = ''timestampMillis'') noteStatusHistoryTSVColumns"
    unfolding noteStatusHistoryTSVColumns_eq optionalTimestampKeys_def keys by simp
  have c: "noteStatusHistoryTSVTypeMapping createdAtMillisKey = Some np_int64"
    unfolding noteStatusHistoryTSVTypeMapping_def noteStatusHistoryTSVColumnsAndTypes_def keys
    by simp
  from a b c show ?thesis by simp
qed

subsection \<open>The cross-phase hand-off\<close>

text \<open>
  C8: a payload handle is determined by its name, a string, and its size, an integer,
  and by nothing else; the prescoring hand-off is determined by the handles of the four
  tables noteTopics, ratings, noteStatusHistory and userEnrollment; the final-scoring
  hand-off by those four and the handles of the prescoring note and rater model outputs.
\<close>

theorem shared_memory_descriptors_fields:
  fixes i i' :: SharedMemoryDataframeInfo
    and p p' :: PrescoringArgsSharedMemory
    and f f' :: FinalScoringArgsSharedMemory
  shows "((i = i') =
        ((sharedMemoryName i :: string) = sharedMemoryName i'
         \<and> (dataSize i :: int) = dataSize i'))
   \<and> ((p = p') =
        (ScoringArgsSharedMemory.noteTopics p = ScoringArgsSharedMemory.noteTopics p'
         \<and> ScoringArgsSharedMemory.ratings p = ScoringArgsSharedMemory.ratings p'
         \<and> ScoringArgsSharedMemory.noteStatusHistory p
             = ScoringArgsSharedMemory.noteStatusHistory p'
         \<and> ScoringArgsSharedMemory.userEnrollment p
             = ScoringArgsSharedMemory.userEnrollment p'))
   \<and> ((f = f') =
        (ScoringArgsSharedMemory.noteTopics f = ScoringArgsSharedMemory.noteTopics f'
         \<and> ScoringArgsSharedMemory.ratings f = ScoringArgsSharedMemory.ratings f'
         \<and> ScoringArgsSharedMemory.noteStatusHistory f
             = ScoringArgsSharedMemory.noteStatusHistory f'
         \<and> ScoringArgsSharedMemory.userEnrollment f
             = ScoringArgsSharedMemory.userEnrollment f'
         \<and> FinalScoringArgsSharedMemory.prescoringNoteModelOutput f
             = FinalScoringArgsSharedMemory.prescoringNoteModelOutput f'
         \<and> FinalScoringArgsSharedMemory.prescoringRaterModelOutput f
             = FinalScoringArgsSharedMemory.prescoringRaterModelOutput f'))"
  by auto

text \<open>
  C9: stripping the prescoring arguments sets noteTopics, ratings, noteStatusHistory and
  userEnrollment to None; stripping the final-scoring arguments sets ratings,
  noteStatusHistory, userEnrollment and the two prescoring model outputs to None and
  leaves noteTopics and prescoringMetaOutput as they were.
\<close>

theorem remove_large_args_frame:
  fixes p :: "'df PrescoringArgs" and f :: "'df FinalScoringArgs"
  shows "ScoringArgs_remove_large_args_for_multiprocessing p
           = \<lparr>noteTopics = None, ratings = None, noteStatusHistory = None,
              userEnrollment = None\<rparr>
   \<and> FinalScoringArgs_remove_large_args_for_multiprocessing f
       = \<lparr>noteTopics = noteTopics f, ratings = None, noteStatusHistory = None,
          userEnrollment = None, prescoringNoteModelOutput = None,
          prescoringRaterModelOutput = None,
          prescoringMetaOutput = prescoringMetaOutput f\<rparr>"
  unfolding ScoringArgs_remove_large_args_for_multiprocessing_def
    FinalScoringArgs_remove_large_args_for_multiprocessing_def
  by simp

subsection \<open>Scoring groups\<close>

text \<open>
  C10: the core, expansion and expansion-plus group sets are pairwise disjoint and
  together are the integers from 0 to 30.
\<close>

theorem scoring_groups_partition:
  "coreGroups \<inter> expansionGroups = {}
   \<and> coreGroups \<inter> expansionPlusGroups = {}
   \<and> expansionGroups \<inter> expansionPlusGroups = {}
   \<and> coreGroups \<union> expansionGroups \<union> expansionPlusGroups = {0..30}"
proof -
  have u: "[0..30::int] =
      [0, 1, 2, 3, 4, 5, 6, 7, 8, 9, 10, 11, 12, 13, 14, 15, 16, 17, 18, 19, 20, 21, 22,
       23, 24, 25, 26, 27, 28, 29, 30]"
    by code_simp
  show ?thesis
    unfolding set_upto [symmetric] u coreGroups_def expansionGroups_def
      expansionPlusGroups_def
    by auto
qed

end
